theory Spec2Isabelle
  imports Complex_Main "HOL-Library.Sublist"
begin

section \<open>The Horovod strategy of \<^verbatim>\<open>lightning_horovod/strategy.py\<close>\<close>

text \<open>
  The strategy is an adapter between a training host (Lightning's \<^verbatim>\<open>ParallelStrategy\<close>
  base class and its trainer) and the Horovod backend. Neither collaborator is part of the
  source file, so both are parameters of the model: the backend's answers are fields of
  the record \<open>backend\<close>, the base class's methods are fields of the record \<open>host\<close>.
  Every call the adapter makes on the backend is appended to the log \<open>calls\<close> of the
  strategy, so that the order of calls, and their absence on an error path, can be stated.

  Python objects that the adapter mutates in place (parameter-group dicts, optimizers,
  schedulers) live in stores indexed by references, so that two list entries may denote
  the same object. The product of a Python float and an integer is not computed in HOL:
  it is the parameter \<open>float_mul\<close>, so that rounding and overflow are whatever Python's
  are.
\<close>

subsection \<open>Values and errors\<close>

type_synonym ref = nat

text \<open>A process group argument: \<open>None\<close> is Python's \<^verbatim>\<open>None\<close>, \<open>Some g\<close> a group object.\<close>

type_synonym py_group = "nat option"

text \<open>The members of \<^verbatim>\<open>torch.distributed.ReduceOp\<close>.\<close>

datatype ReduceOp =
  ReduceOp_SUM | ReduceOp_AVG | ReduceOp_PRODUCT | ReduceOp_MIN | ReduceOp_MAX
  | ReduceOp_BAND | ReduceOp_BOR | ReduceOp_BXOR | ReduceOp_PREMUL_SUM

text \<open>The argument \<^verbatim>\<open>reduce_op: Optional[Union[ReduceOp, str]]\<close>.\<close>

datatype reduce_op = OpNone | OpStr string | OpConst ReduceOp

text \<open>\<^verbatim>\<open>hvd.Average\<close> and \<^verbatim>\<open>hvd.Sum\<close>.\<close>

datatype hvd_op = hvd_Average | hvd_Sum

datatype pyval =
  Tensor (shape: "nat list") (elems: "real list")
  | PyFloat real
  | PyStr string
  | PyNone
  | PySeq "pyval list"

text \<open>
  A Python float: a finite double, given by the number it stands for, an infinity or a
  NaN. A learning rate is such a value.
\<close>

datatype py_float = Finite real | PosInf | NegInf | NaN

text \<open>
  The three \<^verbatim>\<open>ValueError\<close>s the adapter raises itself (the invalid-configuration
  errors), and the other exceptions of the model. \<open>BackendError\<close> and \<open>HostError\<close> stand
  for any exception raised inside Horovod or inside the base class; the adapter neither
  catches nor translates them.
\<close>

datatype value_error =
  AllreduceSubcommunicator
  | AllgatherSubcommunicator
  | UnrecognizedReduceOp reduce_op

datatype error =
  AssertionError | IndexError | KeyError | AttributeError
  | ValueError value_error
  | BackendError
  | HostError

subsection \<open>Host objects\<close>

record device =
  dev_type :: string
  dev_index :: nat

record nn_module =
  mod_device :: "device option"
  named_parameters :: "(string \<times> ref) list"

text \<open>
  A parameter-group dict. \<open>lr = None\<close> is a dict without the key \<^verbatim>\<open>"lr"\<close>,
  \<open>params = None\<close> one without the key \<^verbatim>\<open>"params"\<close>.
\<close>

record param_group =
  lr :: "py_float option"
  params :: "ref list option"

text \<open>
  An optimizer object: \<open>opt_class\<close> is \<^verbatim>\<open>str(opt.__class__)\<close>, \<open>lightning_inner\<close> is
  \<^verbatim>\<open>opt._optimizer\<close> when the object is a \<^verbatim>\<open>LightningOptimizer\<close> (and \<open>None\<close>
  otherwise), \<open>is_distributed\<close> says whether the object has the methods of a Horovod
  distributed optimizer (\<^verbatim>\<open>skip_synchronize\<close>, \<^verbatim>\<open>synchronize\<close>).
\<close>

record optimizer =
  opt_class :: string
  param_groups :: "ref list"
  lightning_inner :: "ref option"
  is_distributed :: bool

text \<open>
  A scheduler, with its \<^verbatim>\<open>last_epoch\<close>; \<open>base_lrs = None\<close> when it has no attribute
  \<^verbatim>\<open>base_lrs\<close>.
\<close>

record scheduler =
  base_lrs :: "py_float list option"
  last_epoch :: int

record trainer =
  training :: bool
  accumulate_grad_batches :: nat

text \<open>
  The attributes the base class owns, with the stores of the host's objects. The
  attributes \<^verbatim>\<open>model\<close> and \<^verbatim>\<open>lightning_module\<close> are kept as two values; nothing
  below depends on whether they are one object.
\<close>

record parallel_strategy =
  parallel_devices :: "device list option"
  model :: "nn_module option"
  lightning_module :: "nn_module option"
  optimizers :: "ref list"
  lr_scheduler_configs :: "ref list"
  opt_store :: "ref \<Rightarrow> optimizer"
  pg_store :: "ref \<Rightarrow> param_group"
  sched_store :: "ref \<Rightarrow> scheduler"
  next_ref :: ref
  cuda_current :: "device option"

subsection \<open>The backend and the log of calls\<close>

text \<open>
  What Horovod answers in this process: \<^verbatim>\<open>hvd.rank()\<close>, \<^verbatim>\<open>hvd.local_rank()\<close>,
  \<^verbatim>\<open>hvd.size()\<close>, the result of \<^verbatim>\<open>hvd.allreduce\<close> (\<open>None\<close> when Horovod raises),
  the tensors the other ranks hand to a gather, and the class string of the optimizer
  that \<^verbatim>\<open>hvd.DistributedOptimizer\<close> builds from an optimizer of a given class.
\<close>

record backend =
  hvd_rank :: nat
  hvd_local_rank :: nat
  hvd_size :: nat
  hvd_allreduce :: "pyval \<Rightarrow> hvd_op \<Rightarrow> pyval option"
  hvd_peers :: "nat \<Rightarrow> pyval"
  hvd_distributed_class :: "string \<Rightarrow> string"

datatype call =
  Join "nat option"
  | Allreduce pyval hvd_op
  | Allgather pyval
  | BroadcastParameters nat
  | BroadcastOptimizerState ref nat
  | DistributedOptimizer ref nat "(string \<times> ref) list"
  | SkipSynchronize ref
  | ExitStackExit "ref list"

text \<open>
  The strategy object: the base class's part, the backend, \<^verbatim>\<open>self._exit_stack\<close>
  (\<open>None\<close>, or the contexts entered so far) and the log.
\<close>

record strategy =
  base :: parallel_strategy
  hvd :: backend
  exit_stack :: "ref list option"
  calls :: "call list"

text \<open>
  The base class's \<^verbatim>\<open>setup\<close> and \<^verbatim>\<open>teardown\<close>, which act on the base class's
  attributes, the constant \<^verbatim>\<open>dist_group.WORLD\<close> of the host library, and Python's
  product of a float and an integer (\<open>float_mul x n\<close> is the value of \<^verbatim>\<open>x * n\<close>).
\<close>

record host =
  super_setup :: "trainer \<Rightarrow> parallel_strategy \<Rightarrow> error + parallel_strategy"
  super_teardown :: "parallel_strategy \<Rightarrow> error + parallel_strategy"
  WORLD :: py_group
  float_mul :: "py_float \<Rightarrow> nat \<Rightarrow> py_float"

subsection \<open>Rank, device and barrier\<close>

definition world_size :: "strategy \<Rightarrow> nat" where
  "world_size s = hvd_size (hvd s)"

definition local_rank :: "strategy \<Rightarrow> nat" where
  "local_rank s = hvd_local_rank (hvd s)"

definition global_rank :: "strategy \<Rightarrow> nat" where
  "global_rank s = hvd_rank (hvd s)"

text \<open>
  \<^verbatim>\<open>root_device\<close>: the assertion fails when \<^verbatim>\<open>parallel_devices\<close> is not a list, the
  index raises when the list has no entry at the local rank.
\<close>

definition root_device :: "strategy \<Rightarrow> error + device" where
  "root_device s =
     (case parallel_devices (base s) of
        None \<Rightarrow> Inl AssertionError
      | Some ds \<Rightarrow>
          if local_rank s < length ds then Inr (ds ! local_rank s) else Inl IndexError)"

definition join :: "strategy \<Rightarrow> (error + unit) \<times> strategy" where
  "join s =
     (case root_device s of
        Inl e \<Rightarrow> (Inl e, s)
      | Inr d \<Rightarrow>
          if dev_type d = ''cuda''
          then (Inr (), s\<lparr>calls := calls s @ [Join (Some (local_rank s))]\<rparr>)
          else (Inr (), s\<lparr>calls := calls s @ [Join None]\<rparr>))"

subsection \<open>Collectives\<close>

text \<open>
  \<^verbatim>\<open>reduce(tensor, group=None, reduce_op="mean")\<close>. The value goes to
  \<^verbatim>\<open>hvd.allreduce\<close> whatever it is: the body has no test of its type.
\<close>

definition reduce ::
  "pyval \<Rightarrow> py_group \<Rightarrow> reduce_op \<Rightarrow> strategy \<Rightarrow> (error + pyval) \<times> strategy" where
  "reduce tensor grp reduce_op s =
     (if grp \<noteq> None then (Inl (ValueError AllreduceSubcommunicator), s)
      else
        (case (if reduce_op \<in> set [OpNone, OpStr ''avg'', OpStr ''mean''] then Inr hvd_Average
               else if reduce_op \<in> set [OpStr ''sum'', OpConst ReduceOp_SUM] then Inr hvd_Sum
               else Inl (ValueError (UnrecognizedReduceOp reduce_op))) of
           Inl e \<Rightarrow> (Inl e, s)
         | Inr hop \<Rightarrow>
             (case join s of
                (Inl e, s') \<Rightarrow> (Inl e, s')
              | (Inr _, s') \<Rightarrow>
                  (case hvd_allreduce (hvd s') tensor hop of
                     None \<Rightarrow> (Inl BackendError, s'\<lparr>calls := calls s' @ [Allreduce tensor hop]\<rparr>)
                   | Some r \<Rightarrow> (Inr r, s'\<lparr>calls := calls s' @ [Allreduce tensor hop]\<rparr>)))))"

text \<open>
  Modelled from the spec: \<^verbatim>\<open>hvd.allgather\<close> belongs to the backend, which is not in the
  source. The spec has it return one entry per process, ordered by global rank ascending:
  the entry of this process is the tensor it hands over, the entry of rank \<open>r\<close> is what
  rank \<open>r\<close> hands over.
\<close>

definition hvd_allgather :: "backend \<Rightarrow> pyval \<Rightarrow> pyval" where
  "hvd_allgather b t =
     PySeq (map (\<lambda>r. if r = hvd_rank b then t else hvd_peers b r) [0..<hvd_size b])"

text \<open>
  \<^verbatim>\<open>all_gather(result, group=dist_group.WORLD, sync_grads=False)\<close>. A value without
  a \<^verbatim>\<open>shape\<close> raises at \<^verbatim>\<open>result.shape\<close>; \<^verbatim>\<open>reshape(1)\<close> of a 0-dimensional
  tensor keeps its data under the shape \<open>[1]\<close>.
\<close>

definition all_gather ::
  "host \<Rightarrow> pyval \<Rightarrow> py_group \<Rightarrow> bool \<Rightarrow> strategy \<Rightarrow> (error + pyval) \<times> strategy" where
  "all_gather h result grp sync_grads s =
     (if grp \<noteq> None \<and> grp \<noteq> WORLD h then (Inl (ValueError AllgatherSubcommunicator), s)
      else
        (case result of
           Tensor sh xs \<Rightarrow>
             (let result' = (if length sh = 0 then Tensor [1] xs else result) in
              (case join s of
                 (Inl e, s') \<Rightarrow> (Inl e, s')
               | (Inr _, s') \<Rightarrow>
                   (Inr (hvd_allgather (hvd s') result'),
                    s'\<lparr>calls := calls s' @ [Allgather result']\<rparr>)))
         | _ \<Rightarrow> (Inl AttributeError, s)))"

subsection \<open>Setup\<close>

text \<open>
  \<^verbatim>\<open>model_to_device\<close>: the root device is made the current CUDA device when its type
  is \<^verbatim>\<open>"cuda"\<close>; the model must be there and is moved to the root device.
\<close>

definition model_to_device :: "strategy \<Rightarrow> (error + unit) \<times> strategy" where
  "model_to_device s =
     (case root_device s of
        Inl e \<Rightarrow> (Inl e, s)
      | Inr d \<Rightarrow>
          (let s1 = (if dev_type d = ''cuda''
                     then s\<lparr>base := (base s)\<lparr>cuda_current := Some d\<rparr>\<rparr> else s)
           in case model (base s1) of
                None \<Rightarrow> (Inl AssertionError, s1)
              | Some m \<Rightarrow>
                  (Inr (), s1\<lparr>base := (base s1)\<lparr>model := Some (m\<lparr>mod_device := Some d\<rparr>)\<rparr>\<rparr>)))"

text \<open>
  The first lines of \<^verbatim>\<open>setup\<close> (114 to 119): the model goes to its device, the base
  class's \<^verbatim>\<open>setup\<close> runs (it is there that the host builds its optimizers and
  schedulers), and a new exit stack is created and entered.
\<close>

definition setup_begin :: "host \<Rightarrow> trainer \<Rightarrow> strategy \<Rightarrow> (error + unit) \<times> strategy" where
  "setup_begin h tr s =
     (case model_to_device s of
        (Inl e, s0) \<Rightarrow> (Inl e, s0)
      | (Inr _, s0) \<Rightarrow>
          (case super_setup h tr (base s0) of
             Inl e \<Rightarrow> (Inl e, s0)
           | Inr b1 \<Rightarrow> (Inr (), s0\<lparr>base := b1, exit_stack := Some []\<rparr>)))"

text \<open>\<^verbatim>\<open>_unpack_lightning_optimizer\<close>, on references.\<close>

definition unpack_lightning_optimizer :: "parallel_strategy \<Rightarrow> ref \<Rightarrow> ref" where
  "unpack_lightning_optimizer b opt =
     (case lightning_inner (opt_store b opt) of Some inner \<Rightarrow> inner | None \<Rightarrow> opt)"

text \<open>
  The inner loop of lines 133 to 135, \<^verbatim>\<open>param_group["lr"] *= self.world_size\<close> for each
  group of one optimizer: a group without the key raises, and the groups before it stay
  scaled. \<open>mul\<close> is Python's product.
\<close>

fun scale_param_groups ::
  "(py_float \<Rightarrow> nat \<Rightarrow> py_float) \<Rightarrow> nat \<Rightarrow> ref list \<Rightarrow> (ref \<Rightarrow> param_group)
     \<Rightarrow> (error + unit) \<times> (ref \<Rightarrow> param_group)" where
  "scale_param_groups mul W [] st = (Inr (), st)"
| "scale_param_groups mul W (g # gs) st =
     (case lr (st g) of
        None \<Rightarrow> (Inl KeyError, st)
      | Some x \<Rightarrow> scale_param_groups mul W gs (st(g := (st g)\<lparr>lr := Some (mul x W)\<rparr>)))"

text \<open>The outer loop, over the optimizers.\<close>

fun scale_optimizers ::
  "(py_float \<Rightarrow> nat \<Rightarrow> py_float) \<Rightarrow> nat \<Rightarrow> (ref \<Rightarrow> optimizer) \<Rightarrow> ref list
     \<Rightarrow> (ref \<Rightarrow> param_group) \<Rightarrow> (error + unit) \<times> (ref \<Rightarrow> param_group)" where
  "scale_optimizers mul W os [] st = (Inr (), st)"
| "scale_optimizers mul W os (opt # opts) st =
     (case scale_param_groups mul W (param_groups (os opt)) st of
        (Inl e, st') \<Rightarrow> (Inl e, st')
      | (Inr _, st') \<Rightarrow> scale_optimizers mul W os opts st')"

text \<open>
  Lines 139 to 142: each config's scheduler that has \<^verbatim>\<open>base_lrs\<close> gets a new list,
  every entry multiplied by the world size.
\<close>

fun scale_schedulers ::
  "(py_float \<Rightarrow> nat \<Rightarrow> py_float) \<Rightarrow> nat \<Rightarrow> ref list \<Rightarrow> (ref \<Rightarrow> scheduler)
     \<Rightarrow> (ref \<Rightarrow> scheduler)" where
  "scale_schedulers mul W [] st = st"
| "scale_schedulers mul W (c # cs) st =
     scale_schedulers mul W cs
       (case base_lrs (st c) of
          None \<Rightarrow> st
        | Some ls \<Rightarrow> st(c := (st c)\<lparr>base_lrs := Some (map (\<lambda>x. mul x W) ls)\<rparr>))"

text \<open>
  \<^verbatim>\<open>_filter_named_parameters\<close>: the named parameters of the model that are in a
  parameter group of the optimizer (\<^verbatim>\<open>group.get("params", [])\<close>).
\<close>

definition filter_named_parameters ::
  "parallel_strategy \<Rightarrow> nn_module \<Rightarrow> ref \<Rightarrow> (string \<times> ref) list" where
  "filter_named_parameters b m opt =
     (let opt_params =
            set (concat (map (\<lambda>g. case params (pg_store b g) of None \<Rightarrow> [] | Some ps \<Rightarrow> ps)
                             (param_groups (opt_store b opt))))
      in filter (\<lambda>(name, p). p \<in> opt_params) (named_parameters m))"

text \<open>
  \<^verbatim>\<open>hvd.DistributedOptimizer(opt, backward_passes_per_step, named_parameters)\<close>: the
  backend builds a new optimizer object over the parameter groups of \<open>opt\<close>, of the class
  the backend derives from the class of \<open>opt\<close>. The new object gets the next free
  reference.
\<close>

definition hvd_DistributedOptimizer ::
  "ref \<Rightarrow> nat \<Rightarrow> (string \<times> ref) list \<Rightarrow> strategy \<Rightarrow> ref \<times> strategy" where
  "hvd_DistributedOptimizer opt bpps named s =
     (let b = base s;
          new = next_ref b;
          wrapped = \<lparr>opt_class = hvd_distributed_class (hvd s) (opt_class (opt_store b opt)),
                     param_groups = param_groups (opt_store b opt),
                     lightning_inner = None,
                     is_distributed = True\<rparr>
      in (new, s\<lparr>base := b\<lparr>opt_store := (opt_store b)(new := wrapped), next_ref := Suc new\<rparr>,
                 calls := calls s @ [DistributedOptimizer opt bpps named]\<rparr>))"

text \<open>
  The list comprehension of \<^verbatim>\<open>_wrap_optimizers\<close>; \<open>opt_class\<close> holds the qualified
  name that \<^verbatim>\<open>str(opt.__class__)\<close> shows between \<^verbatim>\<open><class '\<close> and \<^verbatim>\<open>'>\<close>, and the
  word \<^verbatim>\<open>horovod\<close> can only occur there.
\<close>

fun wrap_each :: "nn_module \<Rightarrow> nat \<Rightarrow> ref list \<Rightarrow> strategy \<Rightarrow> ref list \<times> strategy" where
  "wrap_each lm agb [] s = ([], s)"
| "wrap_each lm agb (opt # opts) s =
     (if \<not> sublist ''horovod'' (opt_class (opt_store (base s) opt))
      then (case hvd_DistributedOptimizer opt agb (filter_named_parameters (base s) lm opt) s of
              (w, s1) \<Rightarrow> (case wrap_each lm agb opts s1 of (ws, s2) \<Rightarrow> (w # ws, s2)))
      else (case wrap_each lm agb opts s of (ws, s2) \<Rightarrow> (opt # ws, s2)))"

definition wrap_optimizers ::
  "ref list \<Rightarrow> nat \<Rightarrow> strategy \<Rightarrow> (error + ref list) \<times> strategy" where
  "wrap_optimizers opts agb s =
     (case lightning_module (base s) of
        None \<Rightarrow> (Inl AssertionError, s)
      | Some lm \<Rightarrow> (case wrap_each lm agb opts s of (ws, s') \<Rightarrow> (Inr ws, s')))"

text \<open>
  Lines 151 to 153: the \<^verbatim>\<open>skip_synchronize()\<close> context of each optimizer is entered on
  the exit stack. An object without that method raises.
\<close>

fun enter_skip_synchronize :: "ref list \<Rightarrow> strategy \<Rightarrow> (error + unit) \<times> strategy" where
  "enter_skip_synchronize [] s = (Inr (), s)"
| "enter_skip_synchronize (opt # opts) s =
     (case exit_stack s of
        None \<Rightarrow> (Inl AttributeError, s)
      | Some st \<Rightarrow>
          if is_distributed (opt_store (base s) opt)
          then enter_skip_synchronize opts
                 (s\<lparr>exit_stack := Some (st @ [opt]), calls := calls s @ [SkipSynchronize opt]\<rparr>)
          else (Inl AttributeError, s))"

text \<open>
  Lines 125 to 153 of \<^verbatim>\<open>setup\<close>, which run when the trainer is training. The two
  broadcasts are calls on the backend and are recorded in the log; the values they install
  come from rank 0, and the model follows a process whose model and optimizer state agree
  with those of rank 0 (rank 0 itself, or a replica built from the same configuration), where
  they change nothing.
\<close>

definition setup_training ::
  "host \<Rightarrow> trainer \<Rightarrow> strategy \<Rightarrow> (error + unit) \<times> strategy" where
  "setup_training h tr s =
     (let opts = map (unpack_lightning_optimizer (base s)) (optimizers (base s)) in
      case scale_optimizers (float_mul h) (world_size s) (opt_store (base s)) opts
             (pg_store (base s)) of
        (Inl e, pgs) \<Rightarrow> (Inl e, s\<lparr>base := (base s)\<lparr>pg_store := pgs\<rparr>\<rparr>)
      | (Inr _, pgs) \<Rightarrow>
          (let s3 = s\<lparr>base := (base s)\<lparr>pg_store := pgs\<rparr>\<rparr>;
               s4 = s3\<lparr>base := (base s3)\<lparr>sched_store :=
                      scale_schedulers (float_mul h) (world_size s3)
                        (lr_scheduler_configs (base s3)) (sched_store (base s3))\<rparr>\<rparr>
           in case lightning_module (base s4) of
                None \<Rightarrow> (Inl AssertionError, s4)
              | Some lm \<Rightarrow>
                  (let s5 = s4\<lparr>calls := calls s4 @ [BroadcastParameters 0]
                                   @ map (\<lambda>opt. BroadcastOptimizerState opt 0) opts\<rparr>
                   in case wrap_optimizers opts (accumulate_grad_batches tr) s5 of
                        (Inl e, s6) \<Rightarrow> (Inl e, s6)
                      | (Inr ws, s6) \<Rightarrow>
                          (let s7 = s6\<lparr>base := (base s6)\<lparr>optimizers := ws\<rparr>\<rparr>
                           in enter_skip_synchronize (optimizers (base s7)) s7))))"

text \<open>\<^verbatim>\<open>setup(trainer)\<close>; the name \<open>setup\<close> is taken by Isabelle.\<close>

definition setup_strategy :: "host \<Rightarrow> trainer \<Rightarrow> strategy \<Rightarrow> (error + unit) \<times> strategy" where
  "setup_strategy h tr s =
     (case setup_begin h tr s of
        (Inl e, s2) \<Rightarrow> (Inl e, s2)
      | (Inr _, s2) \<Rightarrow> if \<not> training tr then (Inr (), s2) else setup_training h tr s2)"

subsection \<open>Teardown\<close>

text \<open>
  \<^verbatim>\<open>teardown()\<close>: an exit stack that is there is exited (its contexts leave in reverse
  order) and the attribute is reset; then the barrier, then the base class's teardown.
\<close>

definition teardown :: "host \<Rightarrow> strategy \<Rightarrow> (error + unit) \<times> strategy" where
  "teardown h s =
     (let s1 = (case exit_stack s of
                  None \<Rightarrow> s
                | Some st \<Rightarrow> s\<lparr>exit_stack := None, calls := calls s @ [ExitStackExit (rev st)]\<rparr>)
      in case join s1 of
           (Inl e, s2) \<Rightarrow> (Inl e, s2)
         | (Inr _, s2) \<Rightarrow>
             (case super_teardown h (base s2) of
                Inl e \<Rightarrow> (Inl e, s2)
              | Inr b \<Rightarrow> (Inr (), s2\<lparr>base := b\<rparr>)))"

subsection \<open>Observations used in the statements\<close>

text \<open>
  The parameter groups in the order in which the two loops of lines 133 to 135 reach
  them; a group that two optimizers share, or a group of an optimizer that is listed
  twice, occurs more than once.
\<close>

definition reached_param_groups :: "parallel_strategy \<Rightarrow> ref list" where
  "reached_param_groups b =
     concat (map (\<lambda>opt. param_groups (opt_store b (unpack_lightning_optimizer b opt)))
                 (optimizers b))"

text \<open>How often the log records that an exit stack was exited.\<close>

fun closes :: "call list \<Rightarrow> nat" where
  "closes [] = 0"
| "closes (ExitStackExit st # cs) = Suc (closes cs)"
| "closes (c # cs) = closes cs"


subsection \<open>A concrete job\<close>

text \<open>
  Four processes on CPU; this one has global rank 1 and local rank 0. The backend's
  \<^verbatim>\<open>allreduce\<close> takes tensors only, as Horovod's does, and every rank holds the same
  tensor; each peer hands its rank, as a tensor of shape \<open>[1]\<close>, to a gather. The host has
  one SGD optimizer with one parameter group of learning rate 0.125, and one scheduler with
  base rate 0.125. These rates and their products with 4 are doubles, so Python's product
  is the exact one on them, and \<open>demo_mul\<close> is Python's product wherever the job uses it.
\<close>

definition demo_mul :: "py_float \<Rightarrow> nat \<Rightarrow> py_float" where
  "demo_mul x n = (case x of Finite r \<Rightarrow> Finite (r * real n) | _ \<Rightarrow> x)"


definition cpu0 :: device where
  "cpu0 = \<lparr>dev_type = ''cpu'', dev_index = 0\<rparr>"

definition demo_backend :: backend where
  "demo_backend =
     \<lparr>hvd_rank = 1, hvd_local_rank = 0, hvd_size = 4,
      hvd_allreduce = (\<lambda>v hop. case v of Tensor sh xs \<Rightarrow> Some v | _ \<Rightarrow> None),
      hvd_peers = (\<lambda>r. Tensor [1] [real r]),
      hvd_distributed_class = (\<lambda>c. ''horovod.torch.optimizer.SGD'')\<rparr>"

definition demo_module :: nn_module where
  "demo_module = \<lparr>mod_device = None, named_parameters = [(''weight'', 7), (''bias'', 8)]\<rparr>"

definition demo_base :: parallel_strategy where
  "demo_base =
     \<lparr>parallel_devices = Some [cpu0],
      model = Some demo_module,
      lightning_module = Some demo_module,
      optimizers = [0],
      lr_scheduler_configs = [0],
      opt_store = (\<lambda>r. \<lparr>opt_class = ''torch.optim.sgd.SGD'', param_groups = [0],
                          lightning_inner = None, is_distributed = False\<rparr>),
      pg_store = (\<lambda>r. \<lparr>lr = Some (Finite (1 / 8)), params = Some [7]\<rparr>),
      sched_store = (\<lambda>r. \<lparr>base_lrs = Some [Finite (1 / 8)], last_epoch = 0\<rparr>),
      next_ref = 1,
      cuda_current = None\<rparr>"

definition demo_strategy :: strategy where
  "demo_strategy = \<lparr>base = demo_base, hvd = demo_backend, exit_stack = None, calls = []\<rparr>"

definition demo_host :: host where
  "demo_host = \<lparr>super_setup = (\<lambda>tr b. Inr b), super_teardown = (\<lambda>b. Inr b), WORLD = Some 0,
                 float_mul = demo_mul\<rparr>"

definition demo_trainer :: trainer where
  "demo_trainer = \<lparr>training = True, accumulate_grad_batches = 1\<rparr>"

text \<open>
  The strategy as the constructor leaves it when no devices are passed
  (\<^verbatim>\<open>parallel_devices=None\<close> is the default of \<^verbatim>\<open>__init__\<close>).
\<close>

definition unconfigured_strategy :: strategy where
  "unconfigured_strategy = demo_strategy\<lparr>base := demo_base\<lparr>parallel_devices := None\<rparr>\<rparr>"

text \<open>The devices are a list that has no entry at the local rank.\<close>

definition short_devices_strategy :: strategy where
  "short_devices_strategy = demo_strategy\<lparr>base := demo_base\<lparr>parallel_devices := Some []\<rparr>\<rparr>"

text \<open>The same optimizer object listed twice.\<close>

definition aliased_strategy :: strategy where
  "aliased_strategy = demo_strategy\<lparr>base := demo_base\<lparr>optimizers := [0, 0]\<rparr>\<rparr>"

text \<open>Two scheduler configs that hold the same scheduler object.\<close>

definition shared_scheduler_strategy :: strategy where
  "shared_scheduler_strategy =
     demo_strategy\<lparr>base := demo_base\<lparr>lr_scheduler_configs := [0, 0]\<rparr>\<rparr>"


definition demo_ready :: strategy where
  "demo_ready = snd (setup_strategy demo_host demo_trainer demo_strategy)"

section \<open>Properties\<close>

subsection \<open>The barrier\<close>

lemma root_device_cases:
  "root_device s = Inl AssertionError \<or> root_device s = Inl IndexError
     \<or> (\<exists>d. root_device s = Inr d)"
  by (simp add: root_device_def split: option.splits)

lemma join_error: "root_device s = Inl e \<Longrightarrow> join s = (Inl e, s)"
  by (simp add: join_def)

lemma join_device:
  "root_device s = Inr d \<Longrightarrow>
     join s = (Inr (), s\<lparr>calls := calls s @
                 [Join (if dev_type d = ''cuda'' then Some (local_rank s) else None)]\<rparr>)"
  by (simp add: join_def)

lemma root_device_demo: "root_device demo_strategy = Inr cpu0"
  by (simp add: root_device_def local_rank_def demo_strategy_def demo_base_def
        demo_backend_def)

subsection \<open>Sub-groups and reduction operators\<close>

text \<open>
  C3. A group that is neither \<^verbatim>\<open>None\<close> nor the world group makes \<^verbatim>\<open>reduce\<close> and
  \<^verbatim>\<open>all_gather\<close> raise their \<^verbatim>\<open>ValueError\<close> (the invalid-configuration error), and
  the strategy is returned as it was: no barrier and no collective has been issued, the
  log of calls is the one before the call.
\<close>

theorem subgroup_rejected_before_any_collective:
  assumes "grp \<noteq> None" and "grp \<noteq> WORLD h"
  shows "reduce tensor grp reduce_op s = (Inl (ValueError AllreduceSubcommunicator), s)
       \<and> all_gather h tensor grp sync_grads s = (Inl (ValueError AllgatherSubcommunicator), s)
       \<and> calls (snd (reduce tensor grp reduce_op s)) = calls s
       \<and> calls (snd (all_gather h tensor grp sync_grads s)) = calls s"
  using assms by (simp add: reduce_def all_gather_def)

theorem subgroup_rejected_before_any_collective_witness:
  "Some 5 \<noteq> (None :: py_group) \<and> Some 5 \<noteq> WORLD demo_host
   \<and> reduce (Tensor [] [2]) (Some 5) (OpStr ''mean'') demo_strategy =
       (Inl (ValueError AllreduceSubcommunicator), demo_strategy)
   \<and> all_gather demo_host (Tensor [] [2]) (Some 5) False demo_strategy =
       (Inl (ValueError AllgatherSubcommunicator), demo_strategy)
   \<and> calls (snd (reduce (Tensor [] [2]) (Some 5) (OpStr ''mean'') demo_strategy)) = []
   \<and> calls (snd (all_gather demo_host (Tensor [] [2]) (Some 5) False demo_strategy)) = []"
  using subgroup_rejected_before_any_collective
          [of "Some 5" demo_host "Tensor [] [2]" "OpStr ''mean''" demo_strategy False]
  by (simp add: demo_host_def demo_strategy_def)

text \<open>
  C4. With the default group, \<^verbatim>\<open>reduce\<close> raises a \<^verbatim>\<open>ValueError\<close> exactly when
  \<^verbatim>\<open>reduce_op\<close> is none of \<^verbatim>\<open>None\<close>, \<^verbatim>\<open>"avg"\<close>, \<^verbatim>\<open>"mean"\<close>, \<^verbatim>\<open>"sum"\<close> and
  \<^verbatim>\<open>ReduceOp.SUM\<close>; the error is then the one for an unrecognized operator and nothing
  else has happened. \<^verbatim>\<open>None\<close>, \<^verbatim>\<open>"avg"\<close> and \<^verbatim>\<open>"mean"\<close> hand \<^verbatim>\<open>hvd.Average\<close>
  to \<^verbatim>\<open>hvd.allreduce\<close>, \<^verbatim>\<open>"sum"\<close> and \<^verbatim>\<open>ReduceOp.SUM\<close> hand it \<^verbatim>\<open>hvd.Sum\<close>.
\<close>

theorem reduce_op_recognised:
  "((\<exists>ve. fst (reduce tensor None reduce_op s) = Inl (ValueError ve))
      \<longleftrightarrow> reduce_op \<notin> {OpNone, OpStr ''avg'', OpStr ''mean'', OpStr ''sum'', OpConst ReduceOp_SUM})
   \<and> (reduce_op \<notin> {OpNone, OpStr ''avg'', OpStr ''mean'', OpStr ''sum'', OpConst ReduceOp_SUM}
        \<longrightarrow> reduce tensor None reduce_op s = (Inl (ValueError (UnrecognizedReduceOp reduce_op)), s))
   \<and> (reduce_op \<in> {OpNone, OpStr ''avg'', OpStr ''mean''} \<and> root_device s = Inr d
        \<longrightarrow> calls (snd (reduce tensor None reduce_op s)) =
              calls s @ [Join (if dev_type d = ''cuda'' then Some (local_rank s) else None),
                         Allreduce tensor hvd_Average])
   \<and> (reduce_op \<in> {OpStr ''sum'', OpConst ReduceOp_SUM} \<and> root_device s = Inr d
        \<longrightarrow> calls (snd (reduce tensor None reduce_op s)) =
              calls s @ [Join (if dev_type d = ''cuda'' then Some (local_rank s) else None),
                         Allreduce tensor hvd_Sum])"
proof -
  have rec: "\<not> (\<exists>ve. fst (reduce tensor None reduce_op s) = Inl (ValueError ve))"
    if "reduce_op \<in> {OpNone, OpStr ''avg'', OpStr ''mean'', OpStr ''sum'', OpConst ReduceOp_SUM}"
    using that root_device_cases [of s]
    by (auto simp: reduce_def join_error join_device split: option.splits)
  have unrec:
    "reduce tensor None reduce_op s = (Inl (ValueError (UnrecognizedReduceOp reduce_op)), s)"
    if "reduce_op \<notin> {OpNone, OpStr ''avg'', OpStr ''mean'', OpStr ''sum'', OpConst ReduceOp_SUM}"
    using that by (simp add: reduce_def)
  have avg: "calls (snd (reduce tensor None reduce_op s)) =
              calls s @ [Join (if dev_type d = ''cuda'' then Some (local_rank s) else None),
                         Allreduce tensor hvd_Average]"
    if "reduce_op \<in> {OpNone, OpStr ''avg'', OpStr ''mean''}" "root_device s = Inr d"
    using that by (auto simp: reduce_def join_device split: option.splits)
  have sm: "calls (snd (reduce tensor None reduce_op s)) =
              calls s @ [Join (if dev_type d = ''cuda'' then Some (local_rank s) else None),
                         Allreduce tensor hvd_Sum]"
    if "reduce_op \<in> {OpStr ''sum'', OpConst ReduceOp_SUM}" "root_device s = Inr d"
    using that by (auto simp: reduce_def join_device split: option.splits)
  from rec unrec avg sm show ?thesis by (metis fst_conv)
qed

theorem reduce_op_recognised_witness:
  "OpStr ''median'' \<notin> {OpNone, OpStr ''avg'', OpStr ''mean'', OpStr ''sum'', OpConst ReduceOp_SUM}
   \<and> reduce (Tensor [] [2]) None (OpStr ''median'') demo_strategy =
       (Inl (ValueError (UnrecognizedReduceOp (OpStr ''median''))), demo_strategy)
   \<and> OpStr ''mean'' \<in> {OpNone, OpStr ''avg'', OpStr ''mean''}
   \<and> root_device demo_strategy = Inr cpu0
   \<and> calls (snd (reduce (Tensor [] [2]) None (OpStr ''mean'') demo_strategy)) =
       [Join None, Allreduce (Tensor [] [2]) hvd_Average]
   \<and> OpConst ReduceOp_SUM \<in> {OpStr ''sum'', OpConst ReduceOp_SUM}
   \<and> calls (snd (reduce (Tensor [] [2]) None (OpConst ReduceOp_SUM) demo_strategy)) =
       [Join None, Allreduce (Tensor [] [2]) hvd_Sum]"
  using reduce_op_recognised [of "Tensor [] [2]" "OpStr ''median''" demo_strategy cpu0]
        reduce_op_recognised [of "Tensor [] [2]" "OpStr ''mean''" demo_strategy cpu0]
        reduce_op_recognised [of "Tensor [] [2]" "OpConst ReduceOp_SUM" demo_strategy cpu0]
  by (simp add: root_device_demo) (simp add: demo_strategy_def cpu0_def)

text \<open>
  C9. The two group checks differ. \<^verbatim>\<open>reduce\<close> raises for every group that is not
  \<^verbatim>\<open>None\<close>, the world group included when it is an object, and not for \<^verbatim>\<open>None\<close>, its
  default. \<^verbatim>\<open>all_gather\<close> raises its sub-group error neither for \<^verbatim>\<open>None\<close> nor for the
  world group, and returns a result for them when it is given a tensor and the root
  device can be read.
\<close>

theorem group_check_differs:
  "(grp \<noteq> None \<longrightarrow> reduce tensor grp reduce_op s = (Inl (ValueError AllreduceSubcommunicator), s))
   \<and> (WORLD h \<noteq> None \<longrightarrow>
         reduce tensor (WORLD h) reduce_op s = (Inl (ValueError AllreduceSubcommunicator), s))
   \<and> fst (reduce tensor None reduce_op s) \<noteq> Inl (ValueError AllreduceSubcommunicator)
   \<and> (\<forall>g \<in> {None, WORLD h}.
         fst (all_gather h tensor g sync_grads s) \<noteq> Inl (ValueError AllgatherSubcommunicator)
         \<and> (\<forall>sh xs d. tensor = Tensor sh xs \<and> root_device s = Inr d
               \<longrightarrow> (\<exists>r. fst (all_gather h tensor g sync_grads s) = Inr r)))"
proof -
  have a: "fst (reduce tensor None reduce_op s) \<noteq> Inl (ValueError AllreduceSubcommunicator)"
    using root_device_cases [of s]
    by (auto simp: reduce_def join_error join_device split: option.splits)
  have b: "fst (all_gather h tensor g sync_grads s) \<noteq> Inl (ValueError AllgatherSubcommunicator)"
    if "g = None \<or> g = WORLD h" for g
    using that root_device_cases [of s]
    by (cases tensor) (auto simp: all_gather_def join_error join_device Let_def)
  have c: "\<exists>r. fst (all_gather h tensor g sync_grads s) = Inr r"
    if "g = None \<or> g = WORLD h" "tensor = Tensor sh xs" "root_device s = Inr d" for g sh xs d
    using that by (auto simp: all_gather_def join_device Let_def)
  show ?thesis using a b c by (simp add: reduce_def)
qed

theorem group_check_differs_witness:
  "WORLD demo_host \<noteq> None
   \<and> reduce (Tensor [3] [1, 2, 3]) (WORLD demo_host) (OpStr ''mean'') demo_strategy =
       (Inl (ValueError AllreduceSubcommunicator), demo_strategy)
   \<and> fst (reduce (Tensor [3] [1, 2, 3]) None (OpStr ''mean'') demo_strategy) \<noteq>
       Inl (ValueError AllreduceSubcommunicator)
   \<and> root_device demo_strategy = Inr cpu0
   \<and> fst (all_gather demo_host (Tensor [3] [1, 2, 3]) (WORLD demo_host) False demo_strategy) \<noteq>
       Inl (ValueError AllgatherSubcommunicator)
   \<and> (\<exists>r. fst (all_gather demo_host (Tensor [3] [1, 2, 3]) (WORLD demo_host) False
                 demo_strategy) = Inr r)
   \<and> (\<exists>r. fst (all_gather demo_host (Tensor [3] [1, 2, 3]) None False demo_strategy) = Inr r)"
  using group_check_differs
          [of "WORLD demo_host" "Tensor [3] [1, 2, 3]" "OpStr ''mean''" demo_strategy demo_host False]
        root_device_demo
  by (simp add: demo_host_def)

text \<open>
  Whatever value \<^verbatim>\<open>reduce\<close> is given, tensor or not, the barrier is issued and the
  value goes to \<^verbatim>\<open>hvd.allreduce\<close>; the result of \<^verbatim>\<open>reduce\<close> is what the backend
  answers.
\<close>

lemma reduce_hands_value_to_allreduce:
  assumes "root_device s = Inr d"
  shows "reduce v None (OpStr ''mean'') s =
           ((case hvd_allreduce (hvd s) v hvd_Average of
               None \<Rightarrow> Inl BackendError
             | Some r \<Rightarrow> Inr r),
            s\<lparr>calls := calls s @
                 [Join (if dev_type d = ''cuda'' then Some (local_rank s) else None),
                  Allreduce v hvd_Average]\<rparr>)"
  using assms by (simp add: reduce_def join_device split: option.splits)

text \<open>
  C5. The docstring of \<^verbatim>\<open>reduce\<close> says that a value that is not a tensor is returned
  unchanged. The body does not do so: at the float 3.5, with the default group and
  \<^verbatim>\<open>"mean"\<close>, on a backend whose \<^verbatim>\<open>allreduce\<close> takes tensors only, the float is not
  returned; the barrier is issued and the call raises inside the backend.
\<close>

theorem reduce_non_tensor_reaches_backend:
  "fst (reduce (PyFloat 3.5) None (OpStr ''mean'') demo_strategy) = Inl BackendError
   \<and> fst (reduce (PyFloat 3.5) None (OpStr ''mean'') demo_strategy) \<noteq> Inr (PyFloat 3.5)
   \<and> calls (snd (reduce (PyFloat 3.5) None (OpStr ''mean'') demo_strategy)) =
       [Join None, Allreduce (PyFloat 3.5) hvd_Average]"
  by (simp add: reduce_def join_def root_device_def local_rank_def demo_strategy_def
        demo_base_def demo_backend_def cpu0_def)

subsection \<open>Teardown\<close>

text \<open>
  C2, as the code has it. Let \<^verbatim>\<open>teardown\<close> run on a strategy whose exit stack was
  never created. When \<^verbatim>\<open>parallel_devices\<close> is a list with an entry at the local rank,
  the adapter raises nothing of its own and issues exactly one call, the barrier; an
  error can only be the one the base class's teardown raises. When \<^verbatim>\<open>parallel_devices\<close>
  is \<^verbatim>\<open>None\<close> the assertion of \<^verbatim>\<open>root_device\<close> fails, and when it is a list without
  an entry at the local rank the index raises; in both cases \<^verbatim>\<open>teardown\<close> raises that
  error and the strategy is as before: no barrier has been issued.
\<close>

theorem teardown_without_setup:
  assumes "exit_stack s = None"
  shows "(\<forall>ds. parallel_devices (base s) = Some ds \<and> local_rank s < length ds \<longrightarrow>
            calls (snd (teardown h s)) =
              calls s @ [Join (if dev_type (ds ! local_rank s) = ''cuda''
                               then Some (local_rank s) else None)]
            \<and> exit_stack (snd (teardown h s)) = None
            \<and> (\<forall>e. fst (teardown h s) = Inl e \<longrightarrow> super_teardown h (base s) = Inl e)
            \<and> (\<forall>b. super_teardown h (base s) = Inr b \<longrightarrow> fst (teardown h s) = Inr ()))
       \<and> (parallel_devices (base s) = None \<longrightarrow>
            teardown h s = (Inl AssertionError, s) \<and> calls (snd (teardown h s)) = calls s)
       \<and> (\<forall>ds. parallel_devices (base s) = Some ds \<and> length ds \<le> local_rank s \<longrightarrow>
            teardown h s = (Inl IndexError, s) \<and> calls (snd (teardown h s)) = calls s)"
proof -
  have ok: "calls (snd (teardown h s)) =
              calls s @ [Join (if dev_type (ds ! local_rank s) = ''cuda''
                               then Some (local_rank s) else None)]
            \<and> exit_stack (snd (teardown h s)) = None
            \<and> (\<forall>e. fst (teardown h s) = Inl e \<longrightarrow> super_teardown h (base s) = Inl e)
            \<and> (\<forall>b. super_teardown h (base s) = Inr b \<longrightarrow> fst (teardown h s) = Inr ())"
    if "parallel_devices (base s) = Some ds" "local_rank s < length ds" for ds
  proof -
    from that have "root_device s = Inr (ds ! local_rank s)" by (simp add: root_device_def)
    with assms show ?thesis by (auto simp: teardown_def join_device split: sum.splits)
  qed
  have none: "teardown h s = (Inl AssertionError, s)" if "parallel_devices (base s) = None"
  proof -
    from that have "root_device s = Inl AssertionError" by (simp add: root_device_def)
    with assms show ?thesis by (simp add: teardown_def join_error)
  qed
  have short: "teardown h s = (Inl IndexError, s)"
    if "parallel_devices (base s) = Some ds" "length ds \<le> local_rank s" for ds
  proof -
    from that have "root_device s = Inl IndexError" by (simp add: root_device_def)
    with assms show ?thesis by (simp add: teardown_def join_error)
  qed
  from ok none short show ?thesis by simp
qed

theorem teardown_without_setup_witness:
  "exit_stack demo_strategy = None
   \<and> parallel_devices (base demo_strategy) = Some [cpu0]
   \<and> local_rank demo_strategy < length [cpu0]
   \<and> calls (snd (teardown demo_host demo_strategy)) = [Join None]
   \<and> exit_stack (snd (teardown demo_host demo_strategy)) = None
   \<and> super_teardown demo_host (base demo_strategy) = Inr demo_base
   \<and> fst (teardown demo_host demo_strategy) = Inr ()
   \<and> exit_stack short_devices_strategy = None
   \<and> parallel_devices (base short_devices_strategy) = Some []
   \<and> length ([] :: device list) \<le> local_rank short_devices_strategy
   \<and> teardown demo_host short_devices_strategy = (Inl IndexError, short_devices_strategy)
   \<and> calls (snd (teardown demo_host short_devices_strategy)) = []
   \<and> parallel_devices (base unconfigured_strategy) = None
   \<and> teardown demo_host unconfigured_strategy = (Inl AssertionError, unconfigured_strategy)"
proof -
  have e: "exit_stack demo_strategy = None" "exit_stack short_devices_strategy = None"
    "exit_stack unconfigured_strategy = None"
    by (simp_all add: short_devices_strategy_def unconfigured_strategy_def demo_strategy_def)
  have d: "parallel_devices (base demo_strategy) = Some [cpu0]"
    "parallel_devices (base short_devices_strategy) = Some []"
    "parallel_devices (base unconfigured_strategy) = None"
    by (simp_all add: short_devices_strategy_def unconfigured_strategy_def demo_strategy_def
          demo_base_def)
  have l: "local_rank demo_strategy = 0" "local_rank short_devices_strategy = 0"
    by (simp_all add: local_rank_def short_devices_strategy_def demo_strategy_def
          demo_backend_def)
  have c: "calls demo_strategy = []" "calls short_devices_strategy = []"
    by (simp_all add: short_devices_strategy_def demo_strategy_def)
  have st: "super_teardown demo_host (base demo_strategy) = Inr demo_base"
    by (simp add: demo_host_def demo_strategy_def)
  from teardown_without_setup [OF e(1), of demo_host]
       teardown_without_setup [OF e(2), of demo_host]
       teardown_without_setup [OF e(3), of demo_host]
       e d l c st
  show ?thesis by (simp add: cpu0_def)
qed

text \<open>
  C2 as stated fails on the strategy that the constructor builds from its defaults: the
  assertion of \<^verbatim>\<open>root_device\<close> fails inside \<^verbatim>\<open>join\<close>, and no barrier is issued.
\<close>

theorem teardown_unconfigured_raises:
  "exit_stack unconfigured_strategy = None
   \<and> fst (teardown demo_host unconfigured_strategy) = Inl AssertionError
   \<and> calls (snd (teardown demo_host unconfigured_strategy)) = []"
  by (simp add: teardown_def join_def root_device_def unconfigured_strategy_def
        demo_strategy_def)

subsection \<open>Gathering\<close>

text \<open>
  C8. A 0-dimensional tensor is handed to the gather under the shape \<open>[1]\<close>, after the
  barrier. When the ranks below the world size \<open>W\<close> all do so, the sequence that comes
  back has length \<open>W\<close>, each entry is a tensor of one dimension, and the entry at index
  \<open>r\<close> is the one rank \<open>r\<close> handed over (this process's own at its global rank). A
  tensor that has a dimension is handed over as it is.
\<close>

theorem all_gather_scalar_reshaped:
  "(grp \<in> {None, WORLD h} \<and> root_device s = Inr d \<and> global_rank s < world_size s
      \<and> (\<forall>r<world_size s. r \<noteq> global_rank s \<longrightarrow> (\<exists>ys. hvd_peers (hvd s) r = Tensor [1] ys))
     \<longrightarrow> (\<exists>entries. fst (all_gather h (Tensor [] xs) grp sync_grads s) = Inr (PySeq entries)
            \<and> length entries = world_size s
            \<and> (\<forall>r<world_size s. \<exists>ys. entries ! r = Tensor [1] ys)
            \<and> entries ! global_rank s = Tensor [1] xs
            \<and> (\<forall>r<world_size s. r \<noteq> global_rank s \<longrightarrow> entries ! r = hvd_peers (hvd s) r))
         \<and> calls (snd (all_gather h (Tensor [] xs) grp sync_grads s)) =
             calls s @ [Join (if dev_type d = ''cuda'' then Some (local_rank s) else None),
                        Allgather (Tensor [1] xs)])
   \<and> (grp \<in> {None, WORLD h} \<and> root_device s = Inr d \<and> sh \<noteq> []
     \<longrightarrow> fst (all_gather h (Tensor sh zs) grp sync_grads s) =
           Inr (hvd_allgather (hvd s) (Tensor sh zs))
         \<and> calls (snd (all_gather h (Tensor sh zs) grp sync_grads s)) =
             calls s @ [Join (if dev_type d = ''cuda'' then Some (local_rank s) else None),
                        Allgather (Tensor sh zs)])"
proof -
  let ?entries = "map (\<lambda>r. if r = global_rank s then Tensor [1] xs else hvd_peers (hvd s) r)
                      [0..<world_size s]"
  have scalar: "all_gather h (Tensor [] xs) grp sync_grads s =
       (Inr (PySeq ?entries),
        s\<lparr>calls := calls s @ [Join (if dev_type d = ''cuda'' then Some (local_rank s) else None),
                              Allgather (Tensor [1] xs)]\<rparr>)"
    if "grp \<in> {None, WORLD h}" "root_device s = Inr d"
    using that
    by (auto simp: all_gather_def join_device hvd_allgather_def world_size_def global_rank_def
          Let_def)
  have shaped: "all_gather h (Tensor sh zs) grp sync_grads s =
       (Inr (hvd_allgather (hvd s) (Tensor sh zs)),
        s\<lparr>calls := calls s @ [Join (if dev_type d = ''cuda'' then Some (local_rank s) else None),
                              Allgather (Tensor sh zs)]\<rparr>)"
    if "grp \<in> {None, WORLD h}" "root_device s = Inr d" "sh \<noteq> []"
    using that by (auto simp: all_gather_def join_device Let_def)
  have entries: "length ?entries = world_size s
        \<and> (\<forall>r<world_size s. \<exists>ys. ?entries ! r = Tensor [1] ys)
        \<and> ?entries ! global_rank s = Tensor [1] xs
        \<and> (\<forall>r<world_size s. r \<noteq> global_rank s \<longrightarrow> ?entries ! r = hvd_peers (hvd s) r)"
    if "global_rank s < world_size s"
       "\<forall>r<world_size s. r \<noteq> global_rank s \<longrightarrow> (\<exists>ys. hvd_peers (hvd s) r = Tensor [1] ys)"
    using that by simp
  show ?thesis
  proof (intro conjI impI)
    assume a: "grp \<in> {None, WORLD h} \<and> root_device s = Inr d \<and> global_rank s < world_size s
      \<and> (\<forall>r<world_size s. r \<noteq> global_rank s \<longrightarrow> (\<exists>ys. hvd_peers (hvd s) r = Tensor [1] ys))"
    then have sc: "all_gather h (Tensor [] xs) grp sync_grads s =
       (Inr (PySeq ?entries),
        s\<lparr>calls := calls s @ [Join (if dev_type d = ''cuda'' then Some (local_rank s) else None),
                              Allgather (Tensor [1] xs)]\<rparr>)"
      using scalar by blast
    from a entries have e: "length ?entries = world_size s
        \<and> (\<forall>r<world_size s. \<exists>ys. ?entries ! r = Tensor [1] ys)
        \<and> ?entries ! global_rank s = Tensor [1] xs
        \<and> (\<forall>r<world_size s. r \<noteq> global_rank s \<longrightarrow> ?entries ! r = hvd_peers (hvd s) r)"
      by blast
    show "\<exists>entries. fst (all_gather h (Tensor [] xs) grp sync_grads s) = Inr (PySeq entries)
            \<and> length entries = world_size s
            \<and> (\<forall>r<world_size s. \<exists>ys. entries ! r = Tensor [1] ys)
            \<and> entries ! global_rank s = Tensor [1] xs
            \<and> (\<forall>r<world_size s. r \<noteq> global_rank s \<longrightarrow> entries ! r = hvd_peers (hvd s) r)"
      by (rule exI [of _ ?entries]) (use sc e in simp)
    show "calls (snd (all_gather h (Tensor [] xs) grp sync_grads s)) =
             calls s @ [Join (if dev_type d = ''cuda'' then Some (local_rank s) else None),
                        Allgather (Tensor [1] xs)]"
      using sc by simp
  next
    assume a: "grp \<in> {None, WORLD h} \<and> root_device s = Inr d \<and> sh \<noteq> []"
    with shaped show "fst (all_gather h (Tensor sh zs) grp sync_grads s) =
           Inr (hvd_allgather (hvd s) (Tensor sh zs))" by simp
    from a shaped show "calls (snd (all_gather h (Tensor sh zs) grp sync_grads s)) =
             calls s @ [Join (if dev_type d = ''cuda'' then Some (local_rank s) else None),
                        Allgather (Tensor sh zs)]" by simp
  qed
qed

theorem all_gather_scalar_reshaped_witness:
  "None \<in> {None, WORLD demo_host} \<and> root_device demo_strategy = Inr cpu0
   \<and> global_rank demo_strategy = 1 \<and> world_size demo_strategy = 4
   \<and> hvd_peers (hvd demo_strategy) 0 = Tensor [1] [0]
   \<and> hvd_peers (hvd demo_strategy) 2 = Tensor [1] [2]
   \<and> hvd_peers (hvd demo_strategy) 3 = Tensor [1] [3]
   \<and> fst (all_gather demo_host (Tensor [] [5]) None False demo_strategy) =
        Inr (PySeq [Tensor [1] [0], Tensor [1] [5], Tensor [1] [2], Tensor [1] [3]])
   \<and> calls (snd (all_gather demo_host (Tensor [] [5]) None False demo_strategy)) =
        [Join None, Allgather (Tensor [1] [5])]
   \<and> [2, 3] \<noteq> ([] :: nat list)
   \<and> calls (snd (all_gather demo_host (Tensor [2, 3] [1, 2, 3, 4, 5, 6]) None False
                   demo_strategy)) =
        [Join None, Allgather (Tensor [2, 3] [1, 2, 3, 4, 5, 6])]"
proof -
  have g: "global_rank demo_strategy = 1" "world_size demo_strategy = 4"
    by (simp_all add: global_rank_def world_size_def demo_strategy_def demo_backend_def)
  have p: "\<forall>r<world_size demo_strategy. r \<noteq> global_rank demo_strategy \<longrightarrow>
             (\<exists>ys. hvd_peers (hvd demo_strategy) r = Tensor [1] ys)"
    by (simp add: demo_strategy_def demo_backend_def)
  have run: "fst (all_gather demo_host (Tensor [] [5]) None False demo_strategy) =
        Inr (PySeq [Tensor [1] [0], Tensor [1] [5], Tensor [1] [2], Tensor [1] [3]])"
    by (simp add: all_gather_def join_def root_device_def local_rank_def hvd_allgather_def
          Let_def upt_rec [of _ "numeral _"] demo_strategy_def demo_base_def demo_backend_def
          cpu0_def)
  from all_gather_scalar_reshaped
         [of None demo_host demo_strategy cpu0 "[5]" False "[2, 3]" "[1, 2, 3, 4, 5, 6]"]
       root_device_demo g p run
  show ?thesis by (simp add: demo_strategy_def demo_backend_def cpu0_def)
qed

subsection \<open>The scaling loops\<close>

text \<open>
  Each visit of a parameter group replaces its learning rate by Python's product of the
  rate and the world size, so a run of the loop that does not raise leaves a group that
  occurs \<open>k\<close> times in the list with that product taken \<open>k\<close> times in a row.
\<close>

lemma funpow_mul_swap:
  "((\<lambda>x. mul x W) ^^ n) (mul x W) = mul (((\<lambda>x. mul x W) ^^ n) x) W"
  using funpow_swap1 [of "\<lambda>x. mul x W" n x] by simp

lemma scale_param_groups_lr:
  "scale_param_groups mul W gs st = (Inr (), st') \<Longrightarrow>
     lr (st' g) = map_option ((\<lambda>x. mul x W) ^^ count_list gs g) (lr (st g))
     \<and> params (st' g) = params (st g)"
proof (induction gs arbitrary: st)
  case Nil
  then show ?case by (simp add: option.map_ident)
next
  case (Cons a gs)
  from Cons.prems obtain x where x: "lr (st a) = Some x"
    by (cases "lr (st a)") auto
  let ?st1 = "st(a := (st a)\<lparr>lr := Some (mul x W)\<rparr>)"
  from Cons.prems x have "scale_param_groups mul W gs ?st1 = (Inr (), st')" by simp
  from Cons.IH [OF this] x show ?case
    by (cases "lr (st g)") (auto simp: funpow_mul_swap)
qed

lemma scale_param_groups_present:
  "scale_param_groups mul W gs st = (Inr (), st') \<Longrightarrow> g \<in> set gs \<Longrightarrow> \<exists>x. lr (st g) = Some x"
proof (induction gs arbitrary: st)
  case Nil
  then show ?case by simp
next
  case (Cons a gs)
  from Cons.prems obtain x where x: "lr (st a) = Some x"
    by (cases "lr (st a)") auto
  let ?st1 = "st(a := (st a)\<lparr>lr := Some (mul x W)\<rparr>)"
  from Cons.prems x have run: "scale_param_groups mul W gs ?st1 = (Inr (), st')" by simp
  show ?case
  proof (cases "g = a")
    case True
    with x show ?thesis by simp
  next
    case False
    with Cons.prems have "g \<in> set gs" by simp
    from Cons.IH [OF run this] False show ?thesis by simp
  qed
qed

lemma scale_param_groups_append:
  "scale_param_groups mul W (xs @ ys) st =
     (case scale_param_groups mul W xs st of
        (Inl e, st') \<Rightarrow> (Inl e, st')
      | (Inr _, st') \<Rightarrow> scale_param_groups mul W ys st')"
  by (induction xs arbitrary: st) (auto split: option.splits)

lemma scale_optimizers_concat:
  "scale_optimizers mul W os opts st =
     scale_param_groups mul W (concat (map (\<lambda>opt. param_groups (os opt)) opts)) st"
  by (induction opts arbitrary: st)
     (auto simp: scale_param_groups_append split: prod.splits sum.splits)

lemma scale_schedulers_base_lrs:
  "base_lrs (scale_schedulers mul W cs st c) =
     map_option (map ((\<lambda>x. mul x W) ^^ count_list cs c)) (base_lrs (st c))
   \<and> last_epoch (scale_schedulers mul W cs st c) = last_epoch (st c)"
proof (induction cs arbitrary: st)
  case Nil
  then show ?case by (simp add: option.map_ident)
next
  case (Cons a cs)
  show ?case
    by (cases "base_lrs (st a)"; cases "base_lrs (st c)")
       (auto simp: Cons.IH funpow_mul_swap)
qed

lemma scale_schedulers_absent:
  "base_lrs (st c) = None \<Longrightarrow> scale_schedulers mul W cs st c = st c"
proof (induction cs arbitrary: st)
  case Nil
  then show ?case by simp
next
  case (Cons a cs)
  show ?case
  proof (cases "base_lrs (st a)")
    case None
    with Cons show ?thesis by simp
  next
    case (Some ls)
    let ?st1 = "st(a := (st a)\<lparr>base_lrs := Some (map (\<lambda>x. mul x W) ls)\<rparr>)"
    from Some Cons.prems have ne: "c \<noteq> a" by auto
    then have "base_lrs (?st1 c) = None" using Cons.prems by simp
    then have "scale_schedulers mul W cs ?st1 c = ?st1 c" by (rule Cons.IH [of ?st1])
    with Some ne show ?thesis by simp
  qed
qed

subsection \<open>What wrapping and entering the contexts leave alone\<close>

lemma hvd_DistributedOptimizer_frame:
  "hvd_DistributedOptimizer opt bpps named s = (w, s1) \<Longrightarrow>
     w = next_ref (base s) \<and> next_ref (base s1) = Suc (next_ref (base s))
     \<and> pg_store (base s1) = pg_store (base s) \<and> sched_store (base s1) = sched_store (base s)
     \<and> exit_stack s1 = exit_stack s \<and> hvd s1 = hvd s
     \<and> lightning_module (base s1) = lightning_module (base s)
     \<and> parallel_devices (base s1) = parallel_devices (base s)
     \<and> lr_scheduler_configs (base s1) = lr_scheduler_configs (base s)
     \<and> (\<forall>r. r \<noteq> next_ref (base s) \<longrightarrow> opt_store (base s1) r = opt_store (base s) r)
     \<and> opt_class (opt_store (base s1) w) =
           hvd_distributed_class (hvd s) (opt_class (opt_store (base s) opt))
     \<and> is_distributed (opt_store (base s1) w)"
  by (auto simp: hvd_DistributedOptimizer_def Let_def)


lemma wrap_each_frame:
  "wrap_each lm agb opts s = (ws, s1) \<Longrightarrow>
     next_ref (base s) \<le> next_ref (base s1)
     \<and> pg_store (base s1) = pg_store (base s) \<and> sched_store (base s1) = sched_store (base s)
     \<and> exit_stack s1 = exit_stack s \<and> hvd s1 = hvd s
     \<and> lightning_module (base s1) = lightning_module (base s)
     \<and> parallel_devices (base s1) = parallel_devices (base s)
     \<and> lr_scheduler_configs (base s1) = lr_scheduler_configs (base s)
     \<and> (\<forall>r. r < next_ref (base s) \<longrightarrow> opt_store (base s1) r = opt_store (base s) r)"
proof (induction opts arbitrary: s ws s1)
  case Nil
  then show ?case by simp
next
  case (Cons opt opts)
  show ?case
  proof (cases "sublist ''horovod'' (opt_class (opt_store (base s) opt))")
    case True
    with Cons.prems obtain ws' where "wrap_each lm agb opts s = (ws', s1)"
      by (auto split: prod.splits)
    from Cons.IH [OF this] show ?thesis .
  next
    case False
    obtain w sa where
      w: "hvd_DistributedOptimizer opt agb (filter_named_parameters (base s) lm opt) s = (w, sa)"
      by force
    with False Cons.prems obtain ws' where rest: "wrap_each lm agb opts sa = (ws', s1)"
      by (auto split: prod.splits)
    from hvd_DistributedOptimizer_frame [OF w] Cons.IH [OF rest] show ?thesis
      by auto
  qed
qed

lemma wrap_optimizers_frame:
  "wrap_optimizers opts agb s = (Inr ws, s1) \<Longrightarrow>
     pg_store (base s1) = pg_store (base s) \<and> sched_store (base s1) = sched_store (base s)
     \<and> exit_stack s1 = exit_stack s \<and> hvd s1 = hvd s"
  using wrap_each_frame
  by (fastforce simp: wrap_optimizers_def split: option.splits prod.splits)

lemma enter_skip_synchronize_frame:
  "base (snd (enter_skip_synchronize opts s)) = base s
   \<and> hvd (snd (enter_skip_synchronize opts s)) = hvd s"
  by (induction opts arbitrary: s) (auto split: option.splits)

lemma enter_skip_synchronize_stack:
  "enter_skip_synchronize opts s = (Inr (), s') \<Longrightarrow> exit_stack s = Some st \<Longrightarrow>
     exit_stack s' = Some (st @ opts)"
  by (induction opts arbitrary: s st) (auto split: option.splits if_splits)

subsection \<open>A setup that completes\<close>

lemma setup_training_success:
  assumes "setup_training h tr s = (Inr (), s')"
  shows "scale_param_groups (float_mul h) (world_size s) (reached_param_groups (base s))
           (pg_store (base s)) = (Inr (), pg_store (base s'))
       \<and> sched_store (base s') =
           scale_schedulers (float_mul h) (world_size s) (lr_scheduler_configs (base s))
             (sched_store (base s))
       \<and> (\<forall>st. exit_stack s = Some st \<longrightarrow> exit_stack s' = Some (st @ optimizers (base s')))
       \<and> hvd s' = hvd s"
proof -
  define opts where "opts = map (unpack_lightning_optimizer (base s)) (optimizers (base s))"
  have reached: "concat (map (\<lambda>opt. param_groups (opt_store (base s) opt)) opts) =
                   reached_param_groups (base s)"
    by (simp add: opts_def reached_param_groups_def comp_def)
  from assms obtain pgs where
    sc: "scale_optimizers (float_mul h) (world_size s) (opt_store (base s)) opts
           (pg_store (base s)) = (Inr (), pgs)"
    unfolding setup_training_def opts_def Let_def
    by (auto split: prod.splits sum.splits)
  define s4 where "s4 = s\<lparr>base := (base s)\<lparr>pg_store := pgs,
      sched_store := scale_schedulers (float_mul h) (world_size s)
                       (lr_scheduler_configs (base s)) (sched_store (base s))\<rparr>\<rparr>"
  define s5 where "s5 = s4\<lparr>calls := calls s4 @ [BroadcastParameters 0]
                                   @ map (\<lambda>opt. BroadcastOptimizerState opt 0) opts\<rparr>"
  from assms sc obtain ws s6 where
    wr: "wrap_optimizers opts (accumulate_grad_batches tr) s5 = (Inr ws, s6)" and
    en: "enter_skip_synchronize ws (s6\<lparr>base := (base s6)\<lparr>optimizers := ws\<rparr>\<rparr>) = (Inr (), s')"
    unfolding setup_training_def Let_def s5_def s4_def
    by (auto simp: opts_def world_size_def split: prod.splits sum.splits option.splits)
  let ?s7 = "s6\<lparr>base := (base s6)\<lparr>optimizers := ws\<rparr>\<rparr>"
  from enter_skip_synchronize_frame [of ws ?s7] en
  have b': "base s' = (base s6)\<lparr>optimizers := ws\<rparr>" and h': "hvd s' = hvd s6" by simp_all
  from wrap_optimizers_frame [OF wr]
  have f: "pg_store (base s6) = pgs"
      "sched_store (base s6) = scale_schedulers (float_mul h) (world_size s)
                       (lr_scheduler_configs (base s)) (sched_store (base s))"
      "exit_stack s6 = exit_stack s" "hvd s6 = hvd s"
    by (simp_all add: s5_def s4_def)
  have stack: "exit_stack s' = Some (st @ optimizers (base s'))" if "exit_stack s = Some st" for st
    using enter_skip_synchronize_stack [OF en, of st] that f b' by simp
  from sc have "scale_param_groups (float_mul h) (world_size s) (reached_param_groups (base s))
                  (pg_store (base s)) = (Inr (), pgs)"
    by (simp add: scale_optimizers_concat reached)
  with f b' h' stack show ?thesis by simp
qed

lemma setup_begin_success:
  assumes "setup_begin h tr s = (Inr (), s2)"
  shows "exit_stack s2 = Some [] \<and> hvd s2 = hvd s \<and> calls s2 = calls s"
  using assms
  by (auto simp: setup_begin_def model_to_device_def Let_def
           split: sum.splits option.splits prod.splits if_splits)

lemma setup_strategy_cases:
  assumes "setup_strategy h tr s = (Inr (), s')"
  shows "fst (setup_begin h tr s) = Inr ()
       \<and> (if training tr then setup_training h tr (snd (setup_begin h tr s)) = (Inr (), s')
          else s' = snd (setup_begin h tr s))"
  using assms
  by (cases "setup_begin h tr s") (auto simp: setup_strategy_def split: sum.splits if_splits)

text \<open>The concrete job, run by the simplifier.\<close>

lemmas demo_defs = demo_strategy_def demo_base_def demo_backend_def demo_host_def
  demo_trainer_def demo_module_def demo_mul_def cpu0_def

lemmas run_defs = setup_strategy_def setup_begin_def model_to_device_def root_device_def
  setup_training_def wrap_optimizers_def hvd_DistributedOptimizer_def
  filter_named_parameters_def unpack_lightning_optimizer_def world_size_def local_rank_def
  reached_param_groups_def Let_def sublist_Cons_right

lemma demo_begin:
  "setup_begin demo_host demo_trainer demo_strategy =
     (Inr (), demo_strategy\<lparr>base := demo_base\<lparr>model := Some (demo_module\<lparr>mod_device := Some cpu0\<rparr>)\<rparr>,
                            exit_stack := Some []\<rparr>)"
  by (simp add: setup_begin_def model_to_device_def root_device_def local_rank_def Let_def
        demo_defs)

lemma demo_run_ok: "fst (setup_strategy demo_host demo_trainer demo_strategy) = Inr ()"
  by (simp add: run_defs demo_defs)

subsection \<open>Learning rates and base rates after setup\<close>

text \<open>
  Let a setup with a training trainer complete, and let \<open>s2\<close> be the strategy when the
  first lines of \<^verbatim>\<open>setup\<close> are done (the base class has built the optimizers). Every
  parameter group that the loops reach has a learning rate, and after setup that rate is
  its value in \<open>s2\<close> with Python's product by the world size taken once for each time the
  loops reach the group; for a group reached exactly once it is that product.
\<close>

lemma setup_scales_once_per_visit:
  assumes "setup_strategy h tr s = (Inr (), s')" and "training tr"
    and "s2 = snd (setup_begin h tr s)"
    and "g \<in> set (reached_param_groups (base s2))"
  shows "lr (pg_store (base s2) g) \<noteq> None
       \<and> lr (pg_store (base s') g) =
           map_option ((\<lambda>x. float_mul h x (world_size s))
                         ^^ count_list (reached_param_groups (base s2)) g)
             (lr (pg_store (base s2) g))
       \<and> (count_list (reached_param_groups (base s2)) g = 1 \<longrightarrow>
            lr (pg_store (base s') g) =
              map_option (\<lambda>x. float_mul h x (world_size s)) (lr (pg_store (base s2) g)))"
proof -
  from setup_strategy_cases [OF assms(1)] assms(2,3)
  have b: "setup_begin h tr s = (Inr (), s2)" and t: "setup_training h tr s2 = (Inr (), s')"
    by (simp_all add: prod_eq_iff)
  from setup_begin_success [OF b] have w: "world_size s2 = world_size s"
    by (simp add: world_size_def)
  from setup_training_success [OF t] w
  have sc: "scale_param_groups (float_mul h) (world_size s) (reached_param_groups (base s2))
              (pg_store (base s2)) = (Inr (), pg_store (base s'))" by simp
  from scale_param_groups_present [OF sc assms(4)]
  have present: "lr (pg_store (base s2) g) \<noteq> None" by auto
  from scale_param_groups_lr [OF sc, of g]
  have scaled: "lr (pg_store (base s') g) =
          map_option ((\<lambda>x. float_mul h x (world_size s))
                         ^^ count_list (reached_param_groups (base s2)) g)
             (lr (pg_store (base s2) g))"
    by simp
  from present scaled show ?thesis by simp
qed

text \<open>
  C1. The comment of the loop says that it scales the learning rate by the number of
  workers, and the claim says the same. The loop does so once for each entry of the list,
  also when two entries are one optimizer object: with the same optimizer listed twice
  and four processes, the learning rate 0.125 ends at 2.0, which is 0.125 * 4 * 4, and
  not at 0.5.
\<close>

theorem setup_scales_twice_when_listed_twice:
  "world_size aliased_strategy = 4 \<and> training demo_trainer
   \<and> optimizers (base aliased_strategy) = [0, 0]
   \<and> fst (setup_strategy demo_host demo_trainer aliased_strategy) = Inr ()
   \<and> lr (pg_store (base aliased_strategy) 0) = Some (Finite (1 / 8))
   \<and> lr (pg_store (base (snd (setup_begin demo_host demo_trainer aliased_strategy))) 0)
        = Some (Finite (1 / 8))
   \<and> float_mul demo_host (Finite (1 / 8)) (world_size aliased_strategy) = Finite (1 / 2)
   \<and> lr (pg_store (base (snd (setup_strategy demo_host demo_trainer aliased_strategy))) 0)
        = Some (Finite 2)
   \<and> lr (pg_store (base (snd (setup_strategy demo_host demo_trainer aliased_strategy))) 0)
        \<noteq> Some (float_mul demo_host (Finite (1 / 8)) (world_size aliased_strategy))"
  by (simp add: aliased_strategy_def run_defs demo_defs)

text \<open>
  After a setup with a training trainer that completes, the \<^verbatim>\<open>base_lrs\<close> of a scheduler
  is the list it had in \<open>s2\<close> with Python's product by the world size taken, on every
  entry, once for each config that holds the scheduler; for a scheduler that one config
  holds, every entry is that product. The other attributes of a scheduler stay, and a
  scheduler without \<^verbatim>\<open>base_lrs\<close> is the object it was.
\<close>

lemma setup_scales_base_lrs_once_per_config:
  assumes "setup_strategy h tr s = (Inr (), s')" and "training tr"
    and "s2 = snd (setup_begin h tr s)"
  shows "base_lrs (sched_store (base s') c) =
           map_option (map ((\<lambda>x. float_mul h x (world_size s))
                              ^^ count_list (lr_scheduler_configs (base s2)) c))
             (base_lrs (sched_store (base s2) c))
       \<and> (count_list (lr_scheduler_configs (base s2)) c = 1 \<longrightarrow>
            base_lrs (sched_store (base s') c) =
              map_option (map (\<lambda>x. float_mul h x (world_size s)))
                (base_lrs (sched_store (base s2) c)))
       \<and> last_epoch (sched_store (base s') c) = last_epoch (sched_store (base s2) c)
       \<and> (base_lrs (sched_store (base s2) c) = None \<longrightarrow>
            sched_store (base s') c = sched_store (base s2) c)"
proof -
  from setup_strategy_cases [OF assms(1)] assms(2,3)
  have b: "setup_begin h tr s = (Inr (), s2)" and t: "setup_training h tr s2 = (Inr (), s')"
    by (simp_all add: prod_eq_iff)
  from setup_begin_success [OF b] have w: "world_size s2 = world_size s"
    by (simp add: world_size_def)
  from setup_training_success [OF t] w
  have sc: "sched_store (base s') =
              scale_schedulers (float_mul h) (world_size s) (lr_scheduler_configs (base s2))
                (sched_store (base s2))"
    by simp
  show ?thesis
    by (simp add: sc scale_schedulers_base_lrs scale_schedulers_absent)
qed

text \<open>
  C7. The comment of the loop says that it adjusts the base rates of the schedulers to
  match the scaled initial rate of the optimizer, and the claim says that each entry is
  multiplied by the world size. The loop does so once for each config, also when two
  configs hold one scheduler object: with such configs, one optimizer and four processes,
  the learning rate 0.125 of the optimizer ends at 0.5 and the base rate 0.125 of the
  scheduler at 2.0.
\<close>

theorem setup_scales_scheduler_twice_when_listed_twice:
  "world_size shared_scheduler_strategy = 4 \<and> training demo_trainer
   \<and> optimizers (base shared_scheduler_strategy) = [0]
   \<and> lr_scheduler_configs (base shared_scheduler_strategy) = [0, 0]
   \<and> fst (setup_strategy demo_host demo_trainer shared_scheduler_strategy) = Inr ()
   \<and> base_lrs (sched_store (base shared_scheduler_strategy) 0) = Some [Finite (1 / 8)]
   \<and> base_lrs (sched_store
                 (base (snd (setup_begin demo_host demo_trainer shared_scheduler_strategy))) 0)
        = Some [Finite (1 / 8)]
   \<and> float_mul demo_host (Finite (1 / 8)) (world_size shared_scheduler_strategy) = Finite (1 / 2)
   \<and> lr (pg_store
            (base (snd (setup_strategy demo_host demo_trainer shared_scheduler_strategy))) 0)
        = Some (Finite (1 / 2))
   \<and> base_lrs (sched_store
                 (base (snd (setup_strategy demo_host demo_trainer shared_scheduler_strategy))) 0)
        = Some [Finite 2]
   \<and> base_lrs (sched_store
                 (base (snd (setup_strategy demo_host demo_trainer shared_scheduler_strategy))) 0)
        \<noteq> Some (map (\<lambda>x. float_mul demo_host x (world_size shared_scheduler_strategy))
                    [Finite (1 / 8)])"
  by (simp add: shared_scheduler_strategy_def run_defs demo_defs)

subsection \<open>Wrapping once\<close>











subsection \<open>The exit stack\<close>

lemma closes_append: "closes (xs @ ys) = closes xs + closes ys"
  by (induction xs rule: closes.induct) simp_all

lemma teardown_exit_stack: "exit_stack (snd (teardown h s)) = None"
  by (cases "exit_stack s")
     (auto simp: teardown_def Let_def join_def root_device_def split: sum.splits option.splits)

lemma teardown_closes:
  "closes (calls (snd (teardown h s))) = closes (calls s) + (if exit_stack s = None then 0 else 1)"
  by (cases "exit_stack s")
     (auto simp: teardown_def Let_def join_def root_device_def closes_append
           split: sum.splits option.splits)

text \<open>
  C10. The first lines of \<^verbatim>\<open>setup\<close>, which come before the test of
  \<^verbatim>\<open>trainer.training\<close>, leave a new, empty exit stack when they complete; a setup that
  completes leaves an exit stack: the empty one when the trainer is not training, the one
  with the context of every optimizer when it is. \<^verbatim>\<open>teardown\<close> always leaves the
  attribute at \<^verbatim>\<open>None\<close> (also when its barrier raises), it exits a stack that is there
  once and none that is not, and a second \<^verbatim>\<open>teardown\<close> exits nothing more.
\<close>

theorem exit_stack_lifecycle:
  "(fst (setup_begin h tr s) = Inr () \<longrightarrow> exit_stack (snd (setup_begin h tr s)) = Some [])
   \<and> (setup_strategy h tr s = (Inr (), s') \<longrightarrow>
        exit_stack s' = Some (if training tr then optimizers (base s') else []))
   \<and> exit_stack (snd (teardown h t)) = None
   \<and> closes (calls (snd (teardown h t))) =
        closes (calls t) + (if exit_stack t = None then 0 else 1)
   \<and> closes (calls (snd (teardown h (snd (teardown h t))))) = closes (calls (snd (teardown h t)))"
proof -
  have beg: "exit_stack (snd (setup_begin h tr s)) = Some []" if "fst (setup_begin h tr s) = Inr ()"
    using setup_begin_success [of h tr s "snd (setup_begin h tr s)"] that
    by (simp add: prod_eq_iff)
  have setup_ok: "exit_stack s' = Some (if training tr then optimizers (base s') else [])"
    if ok: "setup_strategy h tr s = (Inr (), s')"
  proof (cases "training tr")
    case True
    with setup_strategy_cases [OF ok]
    have t: "setup_training h tr (snd (setup_begin h tr s)) = (Inr (), s')"
      and b: "fst (setup_begin h tr s) = Inr ()" by simp_all
    from setup_training_success [OF t] beg [OF b] True show ?thesis by simp
  next
    case False
    with setup_strategy_cases [OF ok] beg show ?thesis by simp
  qed
  have twice: "closes (calls (snd (teardown h (snd (teardown h t))))) =
                 closes (calls (snd (teardown h t)))"
    by (simp add: teardown_closes [of h "snd (teardown h t)"] teardown_exit_stack)
  from beg setup_ok twice show ?thesis
    by (simp add: teardown_exit_stack teardown_closes)
qed

theorem exit_stack_lifecycle_witness:
  "fst (setup_begin demo_host demo_trainer demo_strategy) = Inr ()
   \<and> exit_stack (snd (setup_begin demo_host demo_trainer demo_strategy)) = Some []
   \<and> setup_strategy demo_host demo_trainer demo_strategy = (Inr (), demo_ready)
   \<and> training demo_trainer
   \<and> optimizers (base demo_ready) = [1]
   \<and> exit_stack demo_ready = Some [1]
   \<and> exit_stack (snd (teardown demo_host demo_ready)) = None
   \<and> closes (calls demo_ready) = 0
   \<and> closes (calls (snd (teardown demo_host demo_ready))) = 1
   \<and> closes (calls (snd (teardown demo_host (snd (teardown demo_host demo_ready))))) = 1"
proof -
  have ok: "setup_strategy demo_host demo_trainer demo_strategy = (Inr (), demo_ready)"
    using demo_run_ok by (simp add: demo_ready_def prod_eq_iff)
  have tr: "training demo_trainer" by (simp add: demo_trainer_def)
  have o: "optimizers (base demo_ready) = [1]"
    by (simp add: demo_ready_def run_defs demo_defs)
  have c: "closes (calls demo_ready) = 0"
    by (simp add: demo_ready_def run_defs demo_defs)
  from exit_stack_lifecycle [of demo_host demo_trainer demo_strategy demo_ready demo_ready]
       ok tr o c demo_begin
  show ?thesis by simp
qed

end
